theory Spec2Isabelle
  imports Complex_Main "HOL-Library.Sublist"
begin

section \<open>Python values and exceptions\<close>

text \<open>
  The values that \<^verbatim>\<open>response.json()\<close>, \<^verbatim>\<open>os.getenv\<close> and the service clients hand to
  \<^verbatim>\<open>weather_dashboard.py\<close>: None, booleans, integers, floats, strings, lists and
  dictionaries with string keys. A float is represented by the rational number it holds
  (NaN and the infinities are left out). A dictionary is an association list in insertion
  order; a key is looked up at its first entry.
\<close>

datatype pyval =
    PyNone
  | PyBool bool
  | PyInt int
  | PyFloat rat
  | PyStr string
  | PyList "pyval list"
  | PyDict "(string \<times> pyval) list"

text \<open>
  The exceptions the program can meet. \<open>RequestException\<close> stands for
  \<^verbatim>\<open>requests.exceptions.RequestException\<close> and its subclasses, \<open>ClientError\<close> for the
  exceptions of the storage and key-management clients. All of them are instances of
  Python's \<^verbatim>\<open>Exception\<close>, so \<^verbatim>\<open>except Exception\<close> and a bare \<^verbatim>\<open>except\<close> catch every
  one of them, and \<^verbatim>\<open>except requests.exceptions.RequestException\<close> catches only the first.
\<close>

datatype exc =
    RequestException string
  | KeyError
  | IndexError
  | TypeError
  | ValueError
  | ClientError string

fun is_RequestException :: "exc \<Rightarrow> bool" where
  "is_RequestException (RequestException _) = True"
| "is_RequestException _ = False"

text \<open>Python's truth value of an object, as \<^verbatim>\<open>if x\<close> and \<^verbatim>\<open>not x\<close> test it.\<close>

fun truthy :: "pyval \<Rightarrow> bool" where
  "truthy PyNone = False"
| "truthy (PyBool b) = b"
| "truthy (PyInt i) = (i \<noteq> 0)"
| "truthy (PyFloat r) = (r \<noteq> 0)"
| "truthy (PyStr s) = (s \<noteq> [])"
| "truthy (PyList xs) = (xs \<noteq> [])"
| "truthy (PyDict kvs) = (kvs \<noteq> [])"

text \<open>\<^verbatim>\<open>x[k]\<close> with a string key: a dictionary looks the key up; nothing else accepts it.\<close>

fun getitem_str :: "pyval \<Rightarrow> string \<Rightarrow> exc + pyval" where
  "getitem_str (PyDict kvs) k =
     (case map_of kvs k of None \<Rightarrow> Inl KeyError | Some v \<Rightarrow> Inr v)"
| "getitem_str _ k = Inl TypeError"

text \<open>
  \<^verbatim>\<open>x[i]\<close> with an integer: lists and strings index (negative indices count from the
  end), a dictionary with string keys has no integer key, the other values are not
  subscriptable.
\<close>

definition index_of :: "'a list \<Rightarrow> int \<Rightarrow> exc + 'a" where
  "index_of xs i =
     (if i < 0 then
        (if nat (- i) \<le> length xs then Inr (xs ! (length xs - nat (- i)))
         else Inl IndexError)
      else
        (if nat i < length xs then Inr (xs ! nat i) else Inl IndexError))"

fun getitem_int :: "pyval \<Rightarrow> int \<Rightarrow> exc + pyval" where
  "getitem_int (PyList xs) i = index_of xs i"
| "getitem_int (PyStr s) i =
     (case index_of s i of Inl e \<Rightarrow> Inl e | Inr c \<Rightarrow> Inr (PyStr [c]))"
| "getitem_int (PyDict kvs) i = Inl KeyError"
| "getitem_int _ i = Inl TypeError"

text \<open>
  \<^verbatim>\<open>d[k] = v\<close> on a dictionary: an existing key keeps its place and gets the new value,
  a new key is appended.
\<close>

fun dict_set :: "(string \<times> pyval) list \<Rightarrow> string \<Rightarrow> pyval \<Rightarrow> (string \<times> pyval) list" where
  "dict_set [] k v = [(k, v)]"
| "dict_set ((k', v') # kvs) k v =
     (if k' = k then (k, v) # kvs else (k', v') # dict_set kvs k v)"

text \<open>\<^verbatim>\<open>x[k] = v\<close> with a string key: only a dictionary supports it.\<close>

fun setitem_str :: "pyval \<Rightarrow> string \<Rightarrow> pyval \<Rightarrow> exc + pyval" where
  "setitem_str (PyDict kvs) k v = Inr (PyDict (dict_set kvs k v))"
| "setitem_str _ k v = Inl TypeError"

definition bind_exc :: "exc + 'a \<Rightarrow> ('a \<Rightarrow> exc + 'b) \<Rightarrow> exc + 'b" where
  "bind_exc r f = (case r of Inl e \<Rightarrow> Inl e | Inr x \<Rightarrow> f x)"

section \<open>The outside world\<close>

text \<open>
  The text \<^verbatim>\<open>json.dumps\<close> produces is represented by the value it serialises, and the
  serialisation is taken to succeed on every value.
\<close>

datatype json_text = Json_dumps pyval

record get_params =
  param_q :: string
  param_appid :: pyval
  param_units :: string

record put_object_args =
  Bucket :: pyval
  Key :: string
  Body :: json_text
  ContentType :: string
  ServerSideEncryption :: string
  SSEKMSKeyId :: pyval

text \<open>The calls the program makes on its clients, in the order it makes them.\<close>

datatype call =
    KmsCreateKey string string string "(string \<times> string) list"
  | HeadBucket pyval
  | CreateBucket pyval
  | PutBucketEncryption pyval string pyval
  | RequestsGet string get_params
  | PutObject put_object_args

text \<open>
  An HTTP response: \<open>http_error\<close> is the error \<^verbatim>\<open>raise_for_status\<close> raises (an
  \<^verbatim>\<open>HTTPError\<close>, which is a \<^verbatim>\<open>RequestException\<close>), if any; \<open>json_body\<close> is what
  \<^verbatim>\<open>response.json()\<close> returns or raises.
\<close>

record response =
  http_error :: "string option"
  json_body :: "exc + pyval"

text \<open>
  Everything the program does not decide: the process environment at start, the outcome
  of each call on a client (an exception raised, or the value returned), and the clock.
  \<open>now_strftime n\<close> is \<^verbatim>\<open>datetime.now().strftime('%Y%m%d-%H%M%S')\<close> at the \<open>n\<close>-th reading
  of the clock.
\<close>

record world =
  initial_environ :: "string \<rightharpoonup> string"
  kms_create_key :: "exc + pyval"
  s3_head_bucket :: "pyval \<Rightarrow> exc option"
  s3_create_bucket :: "pyval \<Rightarrow> exc option"
  s3_put_bucket_encryption :: "pyval \<Rightarrow> string \<Rightarrow> pyval \<Rightarrow> exc option"
  requests_get :: "string \<Rightarrow> get_params \<Rightarrow> exc + response"
  s3_put_object :: "put_object_args \<Rightarrow> exc option"
  now_strftime :: "nat \<Rightarrow> string"

text \<open>The lines the program prints, one constructor for each \<^verbatim>\<open>print\<close> of the source.\<close>

datatype msg =
    Creating_kms_key
  | Created_kms_key pyval
  | Using_existing_kms_key pyval
  | Error_kms_key exc
  | Bucket_exists pyval
  | Creating_bucket pyval
  | Created_bucket pyval
  | Default_encryption_set pyval
  | Encryption_skipped
  | Error_creating_bucket exc
  | Error_fetching exc
  | Saving_with_kms_key pyval
  | Saved_with_kms string
  | Error_saving exc
  | Fetching_weather string
  | Temperature pyval
  | Feels_like pyval
  | Humidity pyval
  | Conditions pyval
  | Saved_to_s3 string
  | Failed_to_fetch string

section \<open>The dashboard\<close>

text \<open>
  The fields of \<^verbatim>\<open>WeatherDashboard\<close> (the two clients are the world's), together with the
  process state the methods touch: \<^verbatim>\<open>os.environ\<close>, the console, the calls made so far and
  the number of times the clock has been read.
\<close>

record state =
  api_key :: pyval
  bucket_name :: pyval
  kms_key_id :: pyval
  environ :: "string \<rightharpoonup> string"
  console :: "msg list"
  calls :: "call list"
  clock_reads :: nat

definition print_line :: "msg \<Rightarrow> state \<Rightarrow> state" where
  "print_line m st = st\<lparr>console := console st @ [m]\<rparr>"

definition record_call :: "call \<Rightarrow> state \<Rightarrow> state" where
  "record_call c st = st\<lparr>calls := calls st @ [c]\<rparr>"

definition getenv :: "(string \<rightharpoonup> string) \<Rightarrow> string \<Rightarrow> pyval" where
  "getenv env name = (case env name of None \<Rightarrow> PyNone | Some s \<Rightarrow> PyStr s)"

text \<open>
  \<^verbatim>\<open>os.environ[name] = v\<close>: the value has to be a string. (A string is taken to hold no
  NUL character, which \<^verbatim>\<open>os.environ\<close> would refuse.)
\<close>

fun environ_set :: "string \<Rightarrow> pyval \<Rightarrow> state \<Rightarrow> exc + state" where
  "environ_set name (PyStr s) st = Inr (st\<lparr>environ := (environ st)(name \<mapsto> s)\<rparr>)"
| "environ_set name _ st = Inl TypeError"

text \<open>
  \<^verbatim>\<open>__init__\<close>: the configuration is read from the environment, no key is held yet.
  Building the two clients is taken to succeed.
\<close>

definition init :: "world \<Rightarrow> state" where
  "init w =
     \<lparr> api_key = getenv (initial_environ w) ''OPENWEATHER_API_KEY'',
       bucket_name = getenv (initial_environ w) ''AWS_BUCKET_NAME'',
       kms_key_id = PyNone,
       environ = initial_environ w,
       console = [],
       calls = [],
       clock_reads = 0 \<rparr>"

text \<open>
  \<^verbatim>\<open>create_kms_key_if_not_exists\<close>. The whole body is inside \<^verbatim>\<open>try ... except Exception\<close>,
  so every exception ends in the error line; what was assigned before it stays assigned.
\<close>

definition create_kms_key_if_not_exists :: "world \<Rightarrow> state \<Rightarrow> state" where
  "create_kms_key_if_not_exists w st =
     (let st1 = st\<lparr>kms_key_id := getenv (environ st) ''AWS_KMS_KEY_ID''\<rparr> in
      if \<not> truthy (kms_key_id st1) then
        (let st2 = print_line Creating_kms_key st1;
             st3 = record_call (KmsCreateKey ''Key for Weather Dashboard'' ''ENCRYPT_DECRYPT''
                      ''SYMMETRIC_DEFAULT'' [(''Purpose'', ''WeatherDashboard'')]) st2 in
         case bind_exc (kms_create_key w)
                (\<lambda>response. bind_exc (getitem_str response ''KeyMetadata'')
                   (\<lambda>meta. getitem_str meta ''KeyId'')) of
           Inl e \<Rightarrow> print_line (Error_kms_key e) st3
         | Inr key_id \<Rightarrow>
             (let st4 = st3\<lparr>kms_key_id := key_id\<rparr>;
                  st5 = print_line (Created_kms_key (kms_key_id st4)) st4 in
              case environ_set ''AWS_KMS_KEY_ID'' (kms_key_id st5) st5 of
                Inl e \<Rightarrow> print_line (Error_kms_key e) st5
              | Inr st6 \<Rightarrow> st6))
      else print_line (Using_existing_kms_key (kms_key_id st1)) st1)"

text \<open>
  \<^verbatim>\<open>create_bucket_if_not_exists\<close>. The existence check is in a \<^verbatim>\<open>try\<close> with a bare
  \<^verbatim>\<open>except\<close>; creation and the encryption configuration are in the handler, inside a
  second \<^verbatim>\<open>try ... except Exception\<close>.
\<close>

definition create_bucket_if_not_exists :: "world \<Rightarrow> state \<Rightarrow> state" where
  "create_bucket_if_not_exists w st =
     (let st1 = record_call (HeadBucket (bucket_name st)) st in
      case s3_head_bucket w (bucket_name st1) of
        None \<Rightarrow> print_line (Bucket_exists (bucket_name st1)) st1
      | Some _ \<Rightarrow>
          (let st2 = print_line (Creating_bucket (bucket_name st1)) st1;
               st3 = record_call (CreateBucket (bucket_name st2)) st2 in
           case s3_create_bucket w (bucket_name st3) of
             Some e \<Rightarrow> print_line (Error_creating_bucket e) st3
           | None \<Rightarrow>
               (let st4 = print_line (Created_bucket (bucket_name st3)) st3 in
                if truthy (kms_key_id st4) then
                  (let st5 = record_call
                       (PutBucketEncryption (bucket_name st4) ''aws:kms'' (kms_key_id st4)) st4 in
                   case s3_put_bucket_encryption w (bucket_name st5) ''aws:kms'' (kms_key_id st5) of
                     Some e \<Rightarrow> print_line (Error_creating_bucket e) st5
                   | None \<Rightarrow> print_line (Default_encryption_set (kms_key_id st5)) st5)
                else print_line Encryption_skipped st4)))"

text \<open>
  \<^verbatim>\<open>fetch_weather\<close>. Only a \<^verbatim>\<open>RequestException\<close> is caught and turned into None; any
  other exception leaves the method.
\<close>

definition base_url :: string where
  "base_url = ''http://api.openweathermap.org/data/2.5/weather''"

definition fetch_weather :: "world \<Rightarrow> string \<Rightarrow> state \<Rightarrow> (exc + pyval) \<times> state" where
  "fetch_weather w city st =
     (let params = \<lparr> param_q = city, param_appid = api_key st, param_units = ''imperial'' \<rparr>;
          st1 = record_call (RequestsGet base_url params) st in
      case bind_exc (requests_get w base_url params)
             (\<lambda>response. case http_error response of
                            Some m \<Rightarrow> Inl (RequestException m)
                          | None \<Rightarrow> json_body response) of
        Inr data \<Rightarrow> (Inr data, st1)
      | Inl e \<Rightarrow>
          if is_RequestException e then (Inr PyNone, print_line (Error_fetching e) st1)
          else (Inl e, st1))"

text \<open>
  \<^verbatim>\<open>save_to_s3\<close>. The dictionary is mutated in place, so the model returns it beside the
  boolean. The clock is read and the file name built before the \<^verbatim>\<open>try\<close>; inside it the
  timestamp is stored first, then the key identifier is tested, then the object is put.
\<close>

definition file_name :: "string \<Rightarrow> string \<Rightarrow> string" where
  "file_name city timestamp = ''weather-data/'' @ city @ ''-'' @ timestamp @ ''.json''"

definition save_to_s3 :: "world \<Rightarrow> pyval \<Rightarrow> string \<Rightarrow> state \<Rightarrow> (bool \<times> pyval) \<times> state" where
  "save_to_s3 w weather_data city st =
     (if \<not> truthy weather_data then ((False, weather_data), st)
      else
        (let timestamp = now_strftime w (clock_reads st);
             st1 = st\<lparr>clock_reads := clock_reads st + 1\<rparr> in
         case setitem_str weather_data ''timestamp'' (PyStr timestamp) of
           Inl e \<Rightarrow> ((False, weather_data), print_line (Error_saving e) st1)
         | Inr stamped \<Rightarrow>
             if \<not> truthy (kms_key_id st1) then
               ((False, stamped), print_line (Error_saving ValueError) st1)
             else
               (let st2 = print_line (Saving_with_kms_key (kms_key_id st1)) st1;
                    args = \<lparr> Bucket = bucket_name st2,
                             Key = file_name city timestamp,
                             Body = Json_dumps stamped,
                             ContentType = ''application/json'',
                             ServerSideEncryption = ''aws:kms'',
                             SSEKMSKeyId = kms_key_id st2 \<rparr>;
                    st3 = record_call (PutObject args) st2 in
                case s3_put_object w args of
                  Some e \<Rightarrow> ((False, stamped), print_line (Error_saving e) st3)
                | None \<Rightarrow> ((True, stamped), print_line (Saved_with_kms city) st3))))"

section \<open>The entry point\<close>

definition cities :: "string list" where
  "cities = [''Calgary'', ''Ontario'', ''New York'']"

text \<open>
  The four reads at the head of the loop body, in the order of the source:
  \<^verbatim>\<open>weather_data['main']['temp']\<close>, \<^verbatim>\<open>['main']['feels_like']\<close>, \<^verbatim>\<open>['main']['humidity']\<close>
  and \<^verbatim>\<open>['weather'][0]['description']\<close>. None of them is guarded.
\<close>

definition read_summary :: "pyval \<Rightarrow> exc + (pyval \<times> pyval \<times> pyval \<times> pyval)" where
  "read_summary weather_data =
     bind_exc (bind_exc (getitem_str weather_data ''main'') (\<lambda>m. getitem_str m ''temp''))
       (\<lambda>temp.
     bind_exc (bind_exc (getitem_str weather_data ''main'') (\<lambda>m. getitem_str m ''feels_like''))
       (\<lambda>feels_like.
     bind_exc (bind_exc (getitem_str weather_data ''main'') (\<lambda>m. getitem_str m ''humidity''))
       (\<lambda>humidity.
     bind_exc (bind_exc (bind_exc (getitem_str weather_data ''weather'')
                 (\<lambda>ws. getitem_int ws 0)) (\<lambda>w0. getitem_str w0 ''description''))
       (\<lambda>description. Inr (temp, feels_like, humidity, description)))))"

text \<open>
  The body of \<^verbatim>\<open>for city in cities\<close>. The result is the exception that leaves the body,
  if one does, and the state reached.
\<close>

definition loop_body :: "world \<Rightarrow> string \<Rightarrow> state \<Rightarrow> exc option \<times> state" where
  "loop_body w city st =
     (let st0 = print_line (Fetching_weather city) st in
      case fetch_weather w city st0 of
        (Inl e, st1) \<Rightarrow> (Some e, st1)
      | (Inr weather_data, st1) \<Rightarrow>
          if truthy weather_data then
            (case read_summary weather_data of
               Inl e \<Rightarrow> (Some e, st1)
             | Inr (temp, feels_like, humidity, description) \<Rightarrow>
                 (let st2 = print_line (Conditions description)
                              (print_line (Humidity humidity)
                                (print_line (Feels_like feels_like)
                                  (print_line (Temperature temp) st1)));
                      ((success, _), st3) = save_to_s3 w weather_data city st2 in
                  (None, if success then print_line (Saved_to_s3 city) st3 else st3)))
          else (None, print_line (Failed_to_fetch city) st1))"

text \<open>The loop: an exception that leaves the body ends the loop.\<close>

fun for_cities :: "world \<Rightarrow> string list \<Rightarrow> state \<Rightarrow> exc option \<times> state" where
  "for_cities w [] st = (None, st)"
| "for_cities w (city # rest) st =
     (case loop_body w city st of
        (Some e, st') \<Rightarrow> (Some e, st')
      | (None, st') \<Rightarrow> for_cities w rest st')"

text \<open>
  \<^verbatim>\<open>main\<close>: the exception that reaches the entry point, if any, and the final state.
\<close>

definition provision :: "world \<Rightarrow> state" where
  "provision w = create_bucket_if_not_exists w (create_kms_key_if_not_exists w (init w))"

definition main :: "world \<Rightarrow> exc option \<times> state" where
  "main w = for_cities w cities (provision w)"

section \<open>Predicates on payloads and calls\<close>

text \<open>
  The shape the provider's interface promises: a dictionary whose \<open>main\<close> entry is a
  dictionary with \<open>temp\<close>, \<open>feels_like\<close> and \<open>humidity\<close>, and whose \<open>weather\<close> entry is
  a non-empty list whose first element is a dictionary with a \<open>description\<close>.
\<close>

definition has_summary_fields :: "pyval \<Rightarrow> bool" where
  "has_summary_fields weather_data =
     (case weather_data of
        PyDict kvs \<Rightarrow>
          (case map_of kvs ''main'' of
             Some (PyDict m) \<Rightarrow>
               map_of m ''temp'' \<noteq> None \<and> map_of m ''feels_like'' \<noteq> None
               \<and> map_of m ''humidity'' \<noteq> None
           | _ \<Rightarrow> False)
          \<and> (case map_of kvs ''weather'' of
                Some (PyList (PyDict d # _)) \<Rightarrow> map_of d ''description'' \<noteq> None
              | _ \<Rightarrow> False)
      | _ \<Rightarrow> False)"

fun is_put_object :: "call \<Rightarrow> bool" where
  "is_put_object (PutObject _) = True"
| "is_put_object _ = False"

fun is_kms_create_key :: "call \<Rightarrow> bool" where
  "is_kms_create_key (KmsCreateKey _ _ _ _) = True"
| "is_kms_create_key _ = False"

text \<open>A put-object call whose path lies in the name space of the city.\<close>

definition put_object_for :: "string \<Rightarrow> call \<Rightarrow> bool" where
  "put_object_for city c =
     (case c of PutObject args \<Rightarrow> prefix (''weather-data/'' @ city @ ''-'') (Key args)
      | _ \<Rightarrow> False)"

text \<open>
  What a call says about encryption: a put-object call asks for \<open>aws:kms\<close> with the
  given, set, key identifier; a bucket-encryption call binds the same identifier; the
  other calls say nothing.
\<close>

definition encrypts_with :: "pyval \<Rightarrow> call \<Rightarrow> bool" where
  "encrypts_with key_id c =
     (case c of
        PutObject args \<Rightarrow>
          truthy key_id \<and> ServerSideEncryption args = ''aws:kms'' \<and> SSEKMSKeyId args = key_id
      | PutBucketEncryption _ algorithm k \<Rightarrow> algorithm = ''aws:kms'' \<and> k = key_id
      | _ \<Rightarrow> True)"

section \<open>Sample worlds\<close>

text \<open>
  The scenario of the specification: the key identifier \<open>key-123\<close> is configured, the
  bucket exists, the provider answers for Calgary and is unreachable for the other cities.
\<close>

definition calgary_payload :: pyval where
  "calgary_payload =
     PyDict [(''main'', PyDict [(''temp'', PyFloat (226 / 5)), (''feels_like'', PyFloat (401 / 10)),
                               (''humidity'', PyInt 60)]),
             (''weather'', PyList [PyDict [(''description'', PyStr ''clear sky'')]])]"

definition scenario_world :: world where
  "scenario_world =
     \<lparr> initial_environ = [''OPENWEATHER_API_KEY'' \<mapsto> ''appid-1'',
                           ''AWS_BUCKET_NAME'' \<mapsto> ''weather-bucket'',
                           ''AWS_KMS_KEY_ID'' \<mapsto> ''key-123''],
       kms_create_key = Inl (ClientError ''AccessDenied''),
       s3_head_bucket = (\<lambda>_. None),
       s3_create_bucket = (\<lambda>_. None),
       s3_put_bucket_encryption = (\<lambda>_ _ _. None),
       requests_get = (\<lambda>url params.
          if param_q params = ''Calgary''
          then Inr \<lparr> http_error = None, json_body = Inr calgary_payload \<rparr>
          else Inl (RequestException ''ConnectionError'')),
       s3_put_object = (\<lambda>_. None),
       now_strftime = (\<lambda>_. ''20240101-120000'') \<rparr>"

text \<open>The same world with no bucket yet.\<close>

definition fresh_bucket_world :: world where
  "fresh_bucket_world = scenario_world \<lparr> s3_head_bucket := (\<lambda>_. Some (ClientError ''404'')) \<rparr>"

text \<open>No bucket, no key identifier configured, and key creation is refused.\<close>

definition keyless_world :: world where
  "keyless_world =
     fresh_bucket_world
       \<lparr> initial_environ := [''OPENWEATHER_API_KEY'' \<mapsto> ''appid-1'',
                             ''AWS_BUCKET_NAME'' \<mapsto> ''weather-bucket''] \<rparr>"

text \<open>No bucket yet, and the storage service refuses to create one.\<close>

definition refused_creation_world :: world where
  "refused_creation_world =
     fresh_bucket_world \<lparr> s3_create_bucket := (\<lambda>_. Some (ClientError ''AccessDenied'')) \<rparr>"

text \<open>No bucket yet; the bucket is created, but the encryption configuration is refused.\<close>

definition refused_encryption_world :: world where
  "refused_encryption_world =
     fresh_bucket_world
       \<lparr> s3_put_bucket_encryption := (\<lambda>_ _ _. Some (ClientError ''AccessDenied'')) \<rparr>"

text \<open>The provider answers every city with a body that has no \<open>main\<close> entry.\<close>

definition malformed_world :: world where
  "malformed_world =
     scenario_world
       \<lparr> requests_get := (\<lambda>url params.
            Inr \<lparr> http_error = None, json_body = Inr (PyDict [(''cod'', PyInt 200)]) \<rparr>) \<rparr>"

section \<open>Evaluation and basic facts\<close>

lemmas run_defs = main_def provision_def cities_def init_def create_kms_key_if_not_exists_def
  create_bucket_if_not_exists_def loop_body_def fetch_weather_def save_to_s3_def read_summary_def
  bind_exc_def getenv_def print_line_def record_call_def file_name_def base_url_def index_of_def
  Let_def

lemmas world_defs = scenario_world_def fresh_bucket_world_def keyless_world_def
  malformed_world_def calgary_payload_def refused_creation_world_def
  refused_encryption_world_def

lemma map_of_dict_set: "map_of (dict_set kvs k v) k = Some v"
  by (induction kvs) auto

lemma index_of_0: "index_of xs 0 = (case xs of [] \<Rightarrow> Inl IndexError | x # _ \<Rightarrow> Inr x)"
  by (cases xs) (simp_all add: index_of_def)

lemma getitem_str_Inr:
  "getitem_str x k = Inr v \<longleftrightarrow> (\<exists>kvs. x = PyDict kvs \<and> map_of kvs k = Some v)"
  by (cases x) (auto split: option.splits)

lemma getitem_int_0_Inr:
  "getitem_int x 0 = Inr v \<longleftrightarrow>
     (\<exists>xs. x = PyList (v # xs)) \<or> (\<exists>c cs. x = PyStr (c # cs) \<and> v = PyStr [c])"
  by (cases x) (auto simp: index_of_0 split: sum.splits list.splits)

lemma bind_exc_Inr: "bind_exc r f = Inr y \<longleftrightarrow> (\<exists>x. r = Inr x \<and> f x = Inr y)"
  by (cases r) (auto simp: bind_exc_def)

text \<open>The four reads succeed exactly on the payloads of the promised shape.\<close>

lemma read_summary_Inr:
  "(\<exists>s. read_summary weather_data = Inr s) \<longleftrightarrow> has_summary_fields weather_data"
  unfolding read_summary_def has_summary_fields_def bind_exc_Inr getitem_str_Inr getitem_int_0_Inr
  by (auto split: pyval.splits option.splits list.splits)

lemma read_summary_Inl:
  "\<not> has_summary_fields weather_data \<Longrightarrow> \<exists>e. read_summary weather_data = Inl e"
  using read_summary_Inr [of weather_data] by (cases "read_summary weather_data") auto

lemma print_line_fields [simp]:
  "api_key (print_line m st) = api_key st"
  "kms_key_id (print_line m st) = kms_key_id st"
  "calls (print_line m st) = calls st"
  "clock_reads (print_line m st) = clock_reads st"
  by (simp_all add: print_line_def)

lemma encrypts_with_RequestsGet [simp]: "encrypts_with k (RequestsGet u p)"
  by (simp add: encrypts_with_def)

section \<open>What each operation leaves alone and what it calls\<close>

lemma create_kms_key_fields:
  "api_key (create_kms_key_if_not_exists w st) = api_key st"
  "bucket_name (create_kms_key_if_not_exists w st) = bucket_name st"
  by (auto simp: create_kms_key_if_not_exists_def print_line_def record_call_def Let_def
           split: sum.splits pyval.splits elim!: environ_set.elims)

lemma create_kms_key_calls:
  "\<exists>new. calls (create_kms_key_if_not_exists w st) = calls st @ new
         \<and> length new \<le> 1
         \<and> (\<forall>c \<in> set new. \<not> is_put_object c \<and> encrypts_with k c)"
  by (auto simp: create_kms_key_if_not_exists_def print_line_def record_call_def Let_def
                 encrypts_with_def
           split: sum.splits elim!: environ_set.elims)

lemma create_bucket_fields:
  "api_key (create_bucket_if_not_exists w st) = api_key st"
  "kms_key_id (create_bucket_if_not_exists w st) = kms_key_id st"
  by (auto simp: create_bucket_if_not_exists_def print_line_def record_call_def Let_def
           split: option.splits)

lemma create_bucket_calls:
  "\<exists>new. calls (create_bucket_if_not_exists w st) = calls st @ new
         \<and> (\<forall>c \<in> set new. \<not> is_put_object c \<and> \<not> is_kms_create_key c
               \<and> encrypts_with (kms_key_id st) c)"
  by (auto simp: create_bucket_if_not_exists_def print_line_def record_call_def Let_def
                 encrypts_with_def
           split: option.splits)

lemma fetch_weather_fields:
  "api_key (snd (fetch_weather w city st)) = api_key st"
  "kms_key_id (snd (fetch_weather w city st)) = kms_key_id st"
  by (auto simp: fetch_weather_def print_line_def record_call_def Let_def split: sum.splits)

lemma fetch_weather_calls:
  "calls (snd (fetch_weather w city st)) =
     calls st @ [RequestsGet base_url
        \<lparr> param_q = city, param_appid = api_key st, param_units = ''imperial'' \<rparr>]"
  by (auto simp: fetch_weather_def print_line_def record_call_def Let_def split: sum.splits)

text \<open>What a fetch returns depends on the world, the city and the API key only.\<close>

lemma fetch_weather_result:
  "api_key st = api_key st' \<Longrightarrow> fst (fetch_weather w city st) = fst (fetch_weather w city st')"
  by (auto simp: fetch_weather_def Let_def split: sum.splits)

lemma save_to_s3_fields:
  "api_key (snd (save_to_s3 w weather_data city st)) = api_key st"
  "kms_key_id (snd (save_to_s3 w weather_data city st)) = kms_key_id st"
  by (auto simp: save_to_s3_def print_line_def record_call_def Let_def
           split: sum.splits option.splits)

lemma save_to_s3_calls:
  "calls (snd (save_to_s3 w weather_data city st)) = calls st
   \<or> (truthy weather_data \<and> truthy (kms_key_id st)
      \<and> (\<exists>args. calls (snd (save_to_s3 w weather_data city st)) = calls st @ [PutObject args]
            \<and> Key args = file_name city (now_strftime w (clock_reads st))
            \<and> ServerSideEncryption args = ''aws:kms''
            \<and> SSEKMSKeyId args = kms_key_id st))"
  by (auto simp: save_to_s3_def print_line_def record_call_def Let_def
           split: sum.splits option.splits)

text \<open>
  One round of the loop: the configuration is untouched, and the calls it adds are the
  request for the city and at most one put-object call, made only when the fetch returned
  a truthy payload, under the city's path and with the key identifier held.
\<close>

lemma loop_body_effect:
  assumes "loop_body w city st = (r, st')"
  shows "api_key st' = api_key st \<and> kms_key_id st' = kms_key_id st
       \<and> (\<exists>new. calls st' = calls st @ new
             \<and> (\<forall>c \<in> set new. encrypts_with (kms_key_id st) c \<and> \<not> is_kms_create_key c
                   \<and> (\<forall>args. c = PutObject args \<longrightarrow>
                         (\<exists>ts. Key args = file_name city ts)
                         \<and> (\<exists>v. fst (fetch_weather w city st) = Inr v \<and> truthy v))))"
proof -
  let ?st0 = "print_line (Fetching_weather city) st"
  obtain fr st1 where f: "fetch_weather w city ?st0 = (fr, st1)"
    by (cases "fetch_weather w city ?st0") auto
  have st1: "api_key st1 = api_key st" "kms_key_id st1 = kms_key_id st"
    "calls st1 = calls st @ [RequestsGet base_url
        \<lparr> param_q = city, param_appid = api_key st, param_units = ''imperial'' \<rparr>]"
    using fetch_weather_fields [of w city ?st0] fetch_weather_calls [of w city ?st0] f by simp_all
  have fr: "fst (fetch_weather w city st) = fr"
    using fetch_weather_result [of st ?st0 w city] f by simp
  show ?thesis
  proof (cases fr)
    case (Inl e)
    with assms f st1 show ?thesis by (auto simp: loop_body_def)
  next
    case (Inr weather_data)
    show ?thesis
    proof (cases "truthy weather_data")
      case False
      with Inr assms f st1 show ?thesis by (auto simp: loop_body_def)
    next
      case True
      show ?thesis
      proof (cases "read_summary weather_data")
        case (Inl e)
        with True Inr assms f st1 show ?thesis by (auto simp: loop_body_def)
      next
        case summary: (Inr s)
        obtain temp feels_like humidity description
          where s: "s = (temp, feels_like, humidity, description)"
          by (cases s) auto
        let ?st2 = "print_line (Conditions description) (print_line (Humidity humidity)
                      (print_line (Feels_like feels_like) (print_line (Temperature temp) st1)))"
        obtain ok wd' st3 where sv: "save_to_s3 w weather_data city ?st2 = ((ok, wd'), st3)"
          by (cases "save_to_s3 w weather_data city ?st2") auto
        have st': "st' = (if ok then print_line (Saved_to_s3 city) st3 else st3)"
          using assms f Inr True summary s sv by (simp add: loop_body_def)
        have st3: "api_key st3 = api_key st" "kms_key_id st3 = kms_key_id st"
          using st1 sv save_to_s3_fields [of w weather_data city ?st2] by simp_all
        have fields: "api_key st' = api_key st" "kms_key_id st' = kms_key_id st"
          using st' st3 by simp_all
        have calls': "calls st' = calls st3"
          using st' by simp
        from save_to_s3_calls [of w weather_data city ?st2]
        have "calls st3 = calls st1
           \<or> (truthy (kms_key_id st)
               \<and> (\<exists>args ts. calls st3 = calls st1 @ [PutObject args]
                     \<and> Key args = file_name city ts
                     \<and> ServerSideEncryption args = ''aws:kms''
                     \<and> SSEKMSKeyId args = kms_key_id st))"
          using sv st1 by auto
        then show ?thesis
        proof
          assume "calls st3 = calls st1"
          with calls' st1 fields show ?thesis by simp
        next
          assume a: "truthy (kms_key_id st)
               \<and> (\<exists>args ts. calls st3 = calls st1 @ [PutObject args]
                     \<and> Key args = file_name city ts
                     \<and> ServerSideEncryption args = ''aws:kms''
                     \<and> SSEKMSKeyId args = kms_key_id st)"
          then obtain args ts where args: "calls st3 = calls st1 @ [PutObject args]"
            "Key args = file_name city ts"
            "ServerSideEncryption args = ''aws:kms''" "SSEKMSKeyId args = kms_key_id st"
            by blast
          have new: "calls st' = calls st @ [RequestsGet base_url
              \<lparr> param_q = city, param_appid = api_key st, param_units = ''imperial'' \<rparr>,
              PutObject args]"
            using calls' args(1) st1(3) by simp
          have ok: "encrypts_with (kms_key_id st) (PutObject args)"
            using a args by (simp add: encrypts_with_def)
          have fv: "\<exists>v. fst (fetch_weather w city st) = Inr v \<and> truthy v"
            using fr Inr True by simp
          show ?thesis using fields new ok fv args(2) by auto
        qed
      qed
    qed
  qed
qed

lemma for_cities_fields:
  "for_cities w cs st = (r, st') \<Longrightarrow> api_key st' = api_key st \<and> kms_key_id st' = kms_key_id st"
proof (induction cs arbitrary: st)
  case Nil
  then show ?case by simp
next
  case (Cons city rest)
  obtain r1 st1 where b: "loop_body w city st = (r1, st1)"
    by (cases "loop_body w city st") auto
  have e1: "api_key st1 = api_key st \<and> kms_key_id st1 = kms_key_id st"
    using loop_body_effect [OF b] by simp
  show ?case
  proof (cases r1)
    case (Some e)
    with Cons.prems b e1 show ?thesis by simp
  next
    case None
    with Cons.prems b have "for_cities w rest st1 = (r, st')" by simp
    from Cons.IH [OF this] e1 show ?thesis by simp
  qed
qed

lemma for_cities_calls:
  "for_cities w cs st = (r, st') \<Longrightarrow>
     \<exists>new. calls st' = calls st @ new
        \<and> (\<forall>c \<in> set new. encrypts_with (kms_key_id st) c \<and> \<not> is_kms_create_key c
              \<and> (\<forall>args. c = PutObject args \<longrightarrow>
                    (\<exists>city \<in> set cs. (\<exists>ts. Key args = file_name city ts)
                       \<and> (\<exists>v. fst (fetch_weather w city st) = Inr v \<and> truthy v))))"
proof (induction cs arbitrary: st)
  case Nil
  then show ?case by simp
next
  case (Cons city rest)
  obtain r1 st1 where b: "loop_body w city st = (r1, st1)"
    by (cases "loop_body w city st") auto
  from loop_body_effect [OF b] obtain new1 where
    f1: "api_key st1 = api_key st" "kms_key_id st1 = kms_key_id st" and
    n1: "calls st1 = calls st @ new1" and
    p1: "\<And>c. c \<in> set new1 \<Longrightarrow> encrypts_with (kms_key_id st) c \<and> \<not> is_kms_create_key c"
        "\<And>c args. c \<in> set new1 \<Longrightarrow> c = PutObject args \<Longrightarrow>
           (\<exists>ts. Key args = file_name city ts)
           \<and> (\<exists>v. fst (fetch_weather w city st) = Inr v \<and> truthy v)"
    by blast
  show ?case
  proof (cases r1)
    case (Some e)
    with Cons.prems b have "st' = st1" by simp
    with n1 p1 show ?thesis by (intro exI [of _ new1]) auto
  next
    case None
    with Cons.prems b have rest: "for_cities w rest st1 = (r, st')" by simp
    from Cons.IH [OF rest] obtain new2 where
      n2: "calls st' = calls st1 @ new2" and
      p2: "\<And>c. c \<in> set new2 \<Longrightarrow> encrypts_with (kms_key_id st1) c \<and> \<not> is_kms_create_key c"
          "\<And>c args. c \<in> set new2 \<Longrightarrow> c = PutObject args \<Longrightarrow>
             (\<exists>city \<in> set rest. (\<exists>ts. Key args = file_name city ts)
                \<and> (\<exists>v. fst (fetch_weather w city st1) = Inr v \<and> truthy v))"
      by blast
    have same: "\<And>c. fst (fetch_weather w c st1) = fst (fetch_weather w c st)"
      using f1 fetch_weather_result [of st1 st w] by simp
    have "calls st' = calls st @ (new1 @ new2)" using n1 n2 by simp
    moreover have "\<forall>c \<in> set (new1 @ new2).
          encrypts_with (kms_key_id st) c \<and> \<not> is_kms_create_key c
          \<and> (\<forall>args. c = PutObject args \<longrightarrow>
                (\<exists>city' \<in> set (city # rest). (\<exists>ts. Key args = file_name city' ts)
                   \<and> (\<exists>v. fst (fetch_weather w city' st) = Inr v \<and> truthy v)))"
    proof (intro ballI conjI allI impI)
      fix c assume "c \<in> set (new1 @ new2)"
      then show "encrypts_with (kms_key_id st) c"
        using p1(1) p2(1) f1 by auto
    next
      fix c assume "c \<in> set (new1 @ new2)"
      then show "\<not> is_kms_create_key c"
        using p1(1) p2(1) by auto
    next
      fix c args assume c: "c \<in> set (new1 @ new2)" and a: "c = PutObject args"
      from c consider "c \<in> set new1" | "c \<in> set new2" by auto
      then show "\<exists>city' \<in> set (city # rest). (\<exists>ts. Key args = file_name city' ts)
                   \<and> (\<exists>v. fst (fetch_weather w city' st) = Inr v \<and> truthy v)"
      proof cases
        case 1
        from p1(2) [OF 1 a] show ?thesis by simp
      next
        case 2
        from p2(2) [OF 2 a] obtain city' where "city' \<in> set rest"
          "(\<exists>ts. Key args = file_name city' ts)
             \<and> (\<exists>v. fst (fetch_weather w city' st1) = Inr v \<and> truthy v)"
          by blast
        then show ?thesis using same by (intro bexI [of _ city']) simp_all
      qed
    qed
    ultimately show ?thesis by (intro exI [of _ "new1 @ new2"] conjI)
  qed
qed

lemma distinct_city_paths:
  "city \<in> set cities \<Longrightarrow> city' \<in> set cities \<Longrightarrow> city \<noteq> city' \<Longrightarrow>
     \<not> prefix (''weather-data/'' @ city @ ''-'') (file_name city' ts)"
  by (auto simp: cities_def file_name_def)

lemma provision_fields:
  "api_key (provision w) = api_key (init w)"
  "kms_key_id (provision w) = kms_key_id (create_kms_key_if_not_exists w (init w))"
  by (simp_all add: provision_def create_bucket_fields create_kms_key_fields)

lemma provision_calls:
  "(\<forall>c \<in> set (calls (provision w)).
      \<not> is_put_object c \<and> encrypts_with (kms_key_id (create_kms_key_if_not_exists w (init w))) c)
   \<and> length (filter is_kms_create_key (calls (provision w))) \<le> 1"
proof -
  let ?st1 = "create_kms_key_if_not_exists w (init w)"
  obtain new1 where n1: "calls ?st1 = calls (init w) @ new1" "length new1 \<le> 1"
    "\<forall>c \<in> set new1. \<not> is_put_object c \<and> encrypts_with (kms_key_id ?st1) c"
    using create_kms_key_calls [of w "init w" "kms_key_id ?st1"] by blast
  obtain new2 where n2: "calls (provision w) = calls ?st1 @ new2"
    "\<forall>c \<in> set new2. \<not> is_put_object c \<and> \<not> is_kms_create_key c
        \<and> encrypts_with (kms_key_id ?st1) c"
    using create_bucket_calls [of w ?st1] unfolding provision_def by blast
  have i: "calls (init w) = []" by (simp add: init_def)
  have e: "filter is_kms_create_key new2 = []" using n2(2) by (simp add: filter_empty_conv)
  have "filter is_kms_create_key (calls (provision w)) = filter is_kms_create_key new1"
    using n1(1) n2(1) i e by simp
  then have k: "length (filter is_kms_create_key (calls (provision w))) \<le> 1"
    using order_trans [OF length_filter_le n1(2), of is_kms_create_key] by simp
  have "\<forall>c \<in> set (calls (provision w)).
      \<not> is_put_object c \<and> encrypts_with (kms_key_id ?st1) c"
    using n1(1,3) n2 i by auto
  with k show ?thesis by simp
qed

section \<open>The claims\<close>

text \<open>
  Claim C1 says that no exception ever reaches the entry point and that the run always
  goes through the whole city list. The run below refutes it for the code: the provider
  answers Calgary with the truthy body \<open>{"cod": 200}\<close>, the unguarded read
  \<^verbatim>\<open>weather_data['main']\<close> raises \<open>KeyError\<close>, the error leaves \<open>main\<close>, and neither
  Ontario nor New York is requested.
\<close>

theorem malformed_payload_escapes:
  "fst (main malformed_world) = Some KeyError
   \<and> calls (snd (main malformed_world)) =
       [HeadBucket (PyStr ''weather-bucket''),
        RequestsGet base_url \<lparr> param_q = ''Calgary'', param_appid = PyStr ''appid-1'',
                                param_units = ''imperial'' \<rparr>]"
  by (simp add: run_defs world_defs)

text \<open>
  Claim C2, as amended. A falsy payload is rejected at once: the result is failure and
  neither the payload nor the state changes. With a truthy payload and no key identifier
  the result is failure and no call is made, but the timestamp has been stored by then:
  a dictionary comes back stamped (any other truthy payload comes back as it was, the
  store having failed).
\<close>

theorem save_rejections:
  "(\<not> truthy weather_data \<longrightarrow> save_to_s3 w weather_data city st = ((False, weather_data), st))
   \<and> (truthy weather_data \<and> \<not> truthy (kms_key_id st) \<longrightarrow>
        fst (fst (save_to_s3 w weather_data city st)) = False
        \<and> calls (snd (save_to_s3 w weather_data city st)) = calls st
        \<and> snd (fst (save_to_s3 w weather_data city st)) =
            (case weather_data of
               PyDict kvs \<Rightarrow>
                 PyDict (dict_set kvs ''timestamp'' (PyStr (now_strftime w (clock_reads st))))
             | _ \<Rightarrow> weather_data))"
  by (cases weather_data) (simp_all add: save_to_s3_def print_line_def Let_def)

theorem save_rejections_witness:
  "\<not> truthy PyNone
   \<and> save_to_s3 keyless_world PyNone ''Calgary'' (init keyless_world)
       = ((False, PyNone), init keyless_world)
   \<and> truthy calgary_payload \<and> \<not> truthy (kms_key_id (init keyless_world))
   \<and> fst (fst (save_to_s3 keyless_world calgary_payload ''Calgary'' (init keyless_world))) = False
   \<and> calls (snd (save_to_s3 keyless_world calgary_payload ''Calgary'' (init keyless_world)))
       = calls (init keyless_world)
   \<and> getitem_str
        (snd (fst (save_to_s3 keyless_world calgary_payload ''Calgary'' (init keyless_world))))
        ''timestamp'' = Inr (PyStr ''20240101-120000'')"
proof -
  have h1: "\<not> truthy PyNone" by simp
  have h2: "truthy calgary_payload \<and> \<not> truthy (kms_key_id (init keyless_world))"
    by (simp add: calgary_payload_def init_def)
  have t: "now_strftime keyless_world (clock_reads (init keyless_world)) = ''20240101-120000''"
    by (simp add: world_defs)
  show ?thesis
    using h1 h2
      save_rejections [of PyNone keyless_world "''Calgary''" "init keyless_world"]
      save_rejections [of calgary_payload keyless_world "''Calgary''" "init keyless_world"]
    by (simp add: t calgary_payload_def)
qed

text \<open>
  Claim C2 as stated fails: with no key identifier held, a rejected call has already
  added the timestamp field to the payload.
\<close>

theorem save_rejection_stamps_counterexample:
  "\<not> truthy (kms_key_id (init keyless_world))
   \<and> fst (fst (save_to_s3 keyless_world (PyDict [(''cod'', PyInt 200)]) ''Calgary''
                 (init keyless_world))) = False
   \<and> snd (fst (save_to_s3 keyless_world (PyDict [(''cod'', PyInt 200)]) ''Calgary''
                 (init keyless_world)))
       = PyDict [(''cod'', PyInt 200), (''timestamp'', PyStr ''20240101-120000'')]
   \<and> snd (fst (save_to_s3 keyless_world (PyDict [(''cod'', PyInt 200)]) ''Calgary''
                 (init keyless_world)))
       \<noteq> PyDict [(''cod'', PyInt 200)]"
  by (simp add: save_to_s3_def init_def world_defs print_line_def Let_def)

text \<open>
  Claim C3, as amended. Encryption is configured only on the path that creates the
  bucket, and this theorem gives the calls and the lines printed on every path. If the
  bucket exists, the existence check is the only call and nothing is said about
  encryption. If the existence check fails and the creation fails, no encryption call is
  made and the error is printed. If the creation succeeds: with no key identifier set, no
  encryption call is made and the omission is printed; with a key identifier set, exactly
  one bucket-encryption call asks for \<open>aws:kms\<close> with that identifier, and the
  binding is printed as set when the service accepts the call, while the error is printed
  when the service refuses it.
\<close>

theorem ensure_bucket_encryption:
  "(s3_head_bucket w (bucket_name st) = None \<longrightarrow>
        calls (create_bucket_if_not_exists w st) = calls st @ [HeadBucket (bucket_name st)]
        \<and> console (create_bucket_if_not_exists w st) = console st @ [Bucket_exists (bucket_name st)])
   \<and> (\<forall>e. s3_head_bucket w (bucket_name st) \<noteq> None
          \<and> s3_create_bucket w (bucket_name st) = Some e \<longrightarrow>
        calls (create_bucket_if_not_exists w st) =
          calls st @ [HeadBucket (bucket_name st), CreateBucket (bucket_name st)]
        \<and> console (create_bucket_if_not_exists w st) =
          console st @ [Creating_bucket (bucket_name st), Error_creating_bucket e])
   \<and> (s3_head_bucket w (bucket_name st) \<noteq> None \<and> s3_create_bucket w (bucket_name st) = None
      \<and> \<not> truthy (kms_key_id st) \<longrightarrow>
        calls (create_bucket_if_not_exists w st) =
          calls st @ [HeadBucket (bucket_name st), CreateBucket (bucket_name st)]
        \<and> console (create_bucket_if_not_exists w st) =
          console st @ [Creating_bucket (bucket_name st), Created_bucket (bucket_name st),
                        Encryption_skipped])
   \<and> (s3_head_bucket w (bucket_name st) \<noteq> None \<and> s3_create_bucket w (bucket_name st) = None
      \<and> truthy (kms_key_id st)
      \<and> s3_put_bucket_encryption w (bucket_name st) ''aws:kms'' (kms_key_id st) = None \<longrightarrow>
        calls (create_bucket_if_not_exists w st) =
          calls st @ [HeadBucket (bucket_name st), CreateBucket (bucket_name st),
                      PutBucketEncryption (bucket_name st) ''aws:kms'' (kms_key_id st)]
        \<and> console (create_bucket_if_not_exists w st) =
          console st @ [Creating_bucket (bucket_name st), Created_bucket (bucket_name st),
                        Default_encryption_set (kms_key_id st)])
   \<and> (\<forall>e. s3_head_bucket w (bucket_name st) \<noteq> None
          \<and> s3_create_bucket w (bucket_name st) = None \<and> truthy (kms_key_id st)
          \<and> s3_put_bucket_encryption w (bucket_name st) ''aws:kms'' (kms_key_id st) = Some e \<longrightarrow>
        calls (create_bucket_if_not_exists w st) =
          calls st @ [HeadBucket (bucket_name st), CreateBucket (bucket_name st),
                      PutBucketEncryption (bucket_name st) ''aws:kms'' (kms_key_id st)]
        \<and> console (create_bucket_if_not_exists w st) =
          console st @ [Creating_bucket (bucket_name st), Created_bucket (bucket_name st),
                        Error_creating_bucket e])"
  by (auto simp: create_bucket_if_not_exists_def record_call_def print_line_def Let_def)

theorem ensure_bucket_encryption_witness:
  "calls (create_bucket_if_not_exists scenario_world (init scenario_world))
     = [HeadBucket (PyStr ''weather-bucket'')]
   \<and> calls (create_bucket_if_not_exists refused_creation_world
              (create_kms_key_if_not_exists refused_creation_world (init refused_creation_world)))
     = [HeadBucket (PyStr ''weather-bucket''), CreateBucket (PyStr ''weather-bucket'')]
   \<and> console (create_bucket_if_not_exists refused_creation_world
              (create_kms_key_if_not_exists refused_creation_world (init refused_creation_world)))
     = [Using_existing_kms_key (PyStr ''key-123''), Creating_bucket (PyStr ''weather-bucket''),
        Error_creating_bucket (ClientError ''AccessDenied'')]
   \<and> calls (create_bucket_if_not_exists keyless_world (init keyless_world))
     = [HeadBucket (PyStr ''weather-bucket''), CreateBucket (PyStr ''weather-bucket'')]
   \<and> console (create_bucket_if_not_exists keyless_world (init keyless_world))
     = [Creating_bucket (PyStr ''weather-bucket''), Created_bucket (PyStr ''weather-bucket''),
        Encryption_skipped]
   \<and> calls (create_bucket_if_not_exists fresh_bucket_world
            (create_kms_key_if_not_exists fresh_bucket_world (init fresh_bucket_world)))
     = [HeadBucket (PyStr ''weather-bucket''), CreateBucket (PyStr ''weather-bucket''),
        PutBucketEncryption (PyStr ''weather-bucket'') ''aws:kms'' (PyStr ''key-123'')]
   \<and> console (create_bucket_if_not_exists fresh_bucket_world
            (create_kms_key_if_not_exists fresh_bucket_world (init fresh_bucket_world)))
     = [Using_existing_kms_key (PyStr ''key-123''), Creating_bucket (PyStr ''weather-bucket''),
        Created_bucket (PyStr ''weather-bucket''), Default_encryption_set (PyStr ''key-123'')]
   \<and> calls (create_bucket_if_not_exists refused_encryption_world
            (create_kms_key_if_not_exists refused_encryption_world
               (init refused_encryption_world)))
     = [HeadBucket (PyStr ''weather-bucket''), CreateBucket (PyStr ''weather-bucket''),
        PutBucketEncryption (PyStr ''weather-bucket'') ''aws:kms'' (PyStr ''key-123'')]
   \<and> console (create_bucket_if_not_exists refused_encryption_world
            (create_kms_key_if_not_exists refused_encryption_world
               (init refused_encryption_world)))
     = [Using_existing_kms_key (PyStr ''key-123''), Creating_bucket (PyStr ''weather-bucket''),
        Created_bucket (PyStr ''weather-bucket''),
        Error_creating_bucket (ClientError ''AccessDenied'')]"
proof -
  let ?fresh = "create_kms_key_if_not_exists fresh_bucket_world (init fresh_bucket_world)"
  let ?nocreate = "create_kms_key_if_not_exists refused_creation_world
                     (init refused_creation_world)"
  let ?noencrypt = "create_kms_key_if_not_exists refused_encryption_world
                      (init refused_encryption_world)"
  have s: "bucket_name (init scenario_world) = PyStr ''weather-bucket''"
    "calls (init scenario_world) = []"
    by (simp_all add: run_defs world_defs)
  have h1: "s3_head_bucket scenario_world (bucket_name (init scenario_world)) = None"
    by (simp add: world_defs)
  have c: "bucket_name ?nocreate = PyStr ''weather-bucket''"
    "kms_key_id ?nocreate = PyStr ''key-123''" "calls ?nocreate = []"
    "console ?nocreate = [Using_existing_kms_key (PyStr ''key-123'')]"
    by (simp_all add: run_defs world_defs)
  have h2: "s3_head_bucket refused_creation_world (bucket_name ?nocreate) \<noteq> None
      \<and> s3_create_bucket refused_creation_world (bucket_name ?nocreate)
          = Some (ClientError ''AccessDenied'')"
    by (simp add: c) (simp add: world_defs)
  have k: "bucket_name (init keyless_world) = PyStr ''weather-bucket''"
    "kms_key_id (init keyless_world) = PyNone"
    "calls (init keyless_world) = []" "console (init keyless_world) = []"
    by (simp_all add: run_defs world_defs)
  have h3: "s3_head_bucket keyless_world (bucket_name (init keyless_world)) \<noteq> None
      \<and> s3_create_bucket keyless_world (bucket_name (init keyless_world)) = None
      \<and> \<not> truthy (kms_key_id (init keyless_world))"
    by (simp add: k) (simp add: world_defs)
  have f: "bucket_name ?fresh = PyStr ''weather-bucket''" "kms_key_id ?fresh = PyStr ''key-123''"
    "calls ?fresh = []" "console ?fresh = [Using_existing_kms_key (PyStr ''key-123'')]"
    by (simp_all add: run_defs world_defs)
  have h4: "s3_head_bucket fresh_bucket_world (bucket_name ?fresh) \<noteq> None
      \<and> s3_create_bucket fresh_bucket_world (bucket_name ?fresh) = None
      \<and> truthy (kms_key_id ?fresh)
      \<and> s3_put_bucket_encryption fresh_bucket_world (bucket_name ?fresh) ''aws:kms''
           (kms_key_id ?fresh) = None"
    by (simp add: f) (simp add: world_defs)
  have n: "bucket_name ?noencrypt = PyStr ''weather-bucket''"
    "kms_key_id ?noencrypt = PyStr ''key-123''" "calls ?noencrypt = []"
    "console ?noencrypt = [Using_existing_kms_key (PyStr ''key-123'')]"
    by (simp_all add: run_defs world_defs)
  have h5: "s3_head_bucket refused_encryption_world (bucket_name ?noencrypt) \<noteq> None
      \<and> s3_create_bucket refused_encryption_world (bucket_name ?noencrypt) = None
      \<and> truthy (kms_key_id ?noencrypt)
      \<and> s3_put_bucket_encryption refused_encryption_world (bucket_name ?noencrypt) ''aws:kms''
           (kms_key_id ?noencrypt) = Some (ClientError ''AccessDenied'')"
    by (simp add: n) (simp add: world_defs)
  show ?thesis
    using h1 h2 h3 h4 h5
      ensure_bucket_encryption [of scenario_world "init scenario_world"]
      ensure_bucket_encryption [of refused_creation_world ?nocreate]
      ensure_bucket_encryption [of keyless_world "init keyless_world"]
      ensure_bucket_encryption [of fresh_bucket_world ?fresh]
      ensure_bucket_encryption [of refused_encryption_world ?noencrypt]
    by (simp add: s c k f n)
qed

text \<open>
  Claim C3 as stated fails: with the key identifier set and the bucket already there,
  the existence check is the only call, so no default encryption is bound to the bucket.
\<close>

theorem existing_bucket_not_encrypted_counterexample:
  "truthy (kms_key_id (create_kms_key_if_not_exists scenario_world (init scenario_world)))
   \<and> calls (create_bucket_if_not_exists scenario_world
              (create_kms_key_if_not_exists scenario_world (init scenario_world)))
       = [HeadBucket (PyStr ''weather-bucket'')]"
  by (simp add: run_defs world_defs)

text \<open>
  Claim C4. While the key identifier held is falsy (None or the empty string),
  \<open>save_to_s3\<close> returns failure for every payload and every city, and makes no call.
\<close>

theorem save_needs_key:
  assumes "\<not> truthy (kms_key_id st)"
  shows "fst (fst (save_to_s3 w weather_data city st)) = False
       \<and> calls (snd (save_to_s3 w weather_data city st)) = calls st"
  using assms by (simp add: save_to_s3_def print_line_def Let_def split: sum.splits)

theorem save_needs_key_witness:
  "\<not> truthy (kms_key_id (provision keyless_world))
   \<and> fst (fst (save_to_s3 keyless_world calgary_payload ''Calgary'' (provision keyless_world)))
       = False
   \<and> calls (snd (save_to_s3 keyless_world calgary_payload ''Calgary'' (provision keyless_world)))
       = calls (provision keyless_world)"
proof -
  have h: "\<not> truthy (kms_key_id (provision keyless_world))"
    by (simp add: run_defs world_defs)
  show ?thesis
    using h save_needs_key [OF h, of keyless_world calgary_payload "''Calgary''"] by simp
qed

text \<open>
  Claim C5. If the fetch for a city of the fixed list returns None, the run makes no
  put-object call under that city's path. (What a fetch returns depends on the world,
  the city and the API key only, so it is read off the provisioned dashboard.)
\<close>

theorem no_write_without_data:
  assumes "city \<in> set cities"
    and "fst (fetch_weather w city (provision w)) = Inr PyNone"
  shows "\<forall>c \<in> set (calls (snd (main w))). \<not> put_object_for city c"
proof
  fix c assume c: "c \<in> set (calls (snd (main w)))"
  obtain r st' where m: "for_cities w cities (provision w) = (r, st')"
    by (cases "for_cities w cities (provision w)") auto
  from for_cities_calls [OF m] obtain new where
    n: "calls st' = calls (provision w) @ new" and
    p: "\<And>c args. c \<in> set new \<Longrightarrow> c = PutObject args \<Longrightarrow>
          (\<exists>city' \<in> set cities. (\<exists>ts. Key args = file_name city' ts)
             \<and> (\<exists>v. fst (fetch_weather w city' (provision w)) = Inr v \<and> truthy v))"
    by blast
  show "\<not> put_object_for city c"
  proof (cases c)
    case (PutObject args)
    have "c \<notin> set (calls (provision w))"
      using provision_calls [of w] PutObject by auto
    with c m n have "c \<in> set new" by (simp add: main_def)
    from p [OF this PutObject] obtain city' ts v where
      c': "city' \<in> set cities" "Key args = file_name city' ts"
      "fst (fetch_weather w city' (provision w)) = Inr v" "truthy v" by blast
    have "city' \<noteq> city" using c'(3,4) assms(2) by auto
    with distinct_city_paths [OF assms(1) c'(1), of ts] c'(2) PutObject
    show ?thesis by (auto simp: put_object_for_def)
  qed (simp_all add: put_object_for_def)
qed

theorem no_write_without_data_witness:
  "''Ontario'' \<in> set cities
   \<and> fst (fetch_weather scenario_world ''Ontario'' (provision scenario_world)) = Inr PyNone
   \<and> list_all (\<lambda>c. \<not> put_object_for ''Ontario'' c) (calls (snd (main scenario_world)))
   \<and> length (filter is_put_object (calls (snd (main scenario_world)))) = 1"
proof -
  have h1: "''Ontario'' \<in> set cities" by (simp add: cities_def)
  have h2: "fst (fetch_weather scenario_world ''Ontario'' (provision scenario_world)) = Inr PyNone"
    by (simp add: run_defs world_defs)
  have n: "length (filter is_put_object (calls (snd (main scenario_world)))) = 1"
    by (simp add: run_defs world_defs)
  show ?thesis using h1 h2 n no_write_without_data [OF h1 h2] by (simp add: list_all_iff)
qed

text \<open>
  Claim C6. A call of \<open>save_to_s3\<close> that returns success was given a dictionary, has
  stored the timestamp in it before serialising it, held a key identifier, and has made
  exactly one put-object call, which the storage service accepted: the body is the
  stamped dictionary, the path is \<open>weather-data/{city}-{timestamp}.json\<close>, and the
  timestamp in the path is the value of the payload's \<open>timestamp\<close> field.
\<close>

theorem save_success:
  assumes "save_to_s3 w weather_data city st = ((True, stamped), st')"
  shows "\<exists>kvs. weather_data = PyDict kvs
       \<and> stamped = PyDict (dict_set kvs ''timestamp'' (PyStr (now_strftime w (clock_reads st))))
       \<and> getitem_str stamped ''timestamp'' = Inr (PyStr (now_strftime w (clock_reads st)))
       \<and> truthy (kms_key_id st)
       \<and> s3_put_object w
            \<lparr> Bucket = bucket_name st,
              Key = ''weather-data/'' @ city @ ''-'' @ now_strftime w (clock_reads st) @ ''.json'',
              Body = Json_dumps stamped,
              ContentType = ''application/json'',
              ServerSideEncryption = ''aws:kms'',
              SSEKMSKeyId = kms_key_id st \<rparr> = None
       \<and> calls st' = calls st @
            [PutObject \<lparr> Bucket = bucket_name st,
                         Key = ''weather-data/'' @ city @ ''-''
                                 @ now_strftime w (clock_reads st) @ ''.json'',
                         Body = Json_dumps stamped,
                         ContentType = ''application/json'',
                         ServerSideEncryption = ''aws:kms'',
                         SSEKMSKeyId = kms_key_id st \<rparr>]"
proof (cases weather_data)
  case (PyDict kvs)
  with assms show ?thesis
    by (auto simp: save_to_s3_def print_line_def record_call_def Let_def file_name_def
                   map_of_dict_set
             split: if_splits option.splits)
qed (use assms in \<open>auto simp: save_to_s3_def print_line_def Let_def split: if_splits\<close>)

theorem save_success_witness:
  "fst (fst (save_to_s3 scenario_world calgary_payload ''Calgary'' (provision scenario_world)))
   \<and> getitem_str
        (snd (fst (save_to_s3 scenario_world calgary_payload ''Calgary''
                     (provision scenario_world))))
        ''timestamp'' = Inr (PyStr ''20240101-120000'')
   \<and> s3_put_object scenario_world
        \<lparr> Bucket = PyStr ''weather-bucket'',
          Key = ''weather-data/Calgary-20240101-120000.json'',
          Body = Json_dumps
            (snd (fst (save_to_s3 scenario_world calgary_payload ''Calgary''
                         (provision scenario_world)))),
          ContentType = ''application/json'',
          ServerSideEncryption = ''aws:kms'',
          SSEKMSKeyId = PyStr ''key-123'' \<rparr> = None
   \<and> calls (snd (save_to_s3 scenario_world calgary_payload ''Calgary''
                   (provision scenario_world)))
       = [HeadBucket (PyStr ''weather-bucket''),
          PutObject \<lparr> Bucket = PyStr ''weather-bucket'',
                       Key = ''weather-data/Calgary-20240101-120000.json'',
                       Body = Json_dumps
                         (snd (fst (save_to_s3 scenario_world calgary_payload ''Calgary''
                                      (provision scenario_world)))),
                       ContentType = ''application/json'',
                       ServerSideEncryption = ''aws:kms'',
                       SSEKMSKeyId = PyStr ''key-123'' \<rparr>]"
proof -
  let ?st = "provision scenario_world"
  let ?r = "save_to_s3 scenario_world calgary_payload ''Calgary'' ?st"
  have t: "fst (fst ?r)"
    by (simp add: run_defs world_defs)
  have h: "?r = ((True, snd (fst ?r)), snd ?r)"
    using t by (simp add: prod_eq_iff)
  have p: "bucket_name ?st = PyStr ''weather-bucket''" "kms_key_id ?st = PyStr ''key-123''"
    "calls ?st = [HeadBucket (PyStr ''weather-bucket'')]"
    "now_strftime scenario_world (clock_reads ?st) = ''20240101-120000''"
    by (simp_all add: run_defs world_defs)
  show ?thesis
    using t save_success [OF h] by (elim exE conjE) (simp add: p)
qed

text \<open>
  Claim C7. When the environment already holds a non-empty key identifier,
  \<open>create_kms_key_if_not_exists\<close> makes no call, holds that identifier afterwards and
  leaves the environment as it was; running it again changes nothing more.
\<close>

theorem ensure_key_preset:
  assumes "environ st ''AWS_KMS_KEY_ID'' = Some k" and "k \<noteq> []"
  shows "calls (create_kms_key_if_not_exists w st) = calls st
       \<and> kms_key_id (create_kms_key_if_not_exists w st) = PyStr k
       \<and> environ (create_kms_key_if_not_exists w st) = environ st
       \<and> kms_key_id (create_kms_key_if_not_exists w (create_kms_key_if_not_exists w st)) = PyStr k
       \<and> calls (create_kms_key_if_not_exists w (create_kms_key_if_not_exists w st)) = calls st"
  using assms by (simp add: create_kms_key_if_not_exists_def getenv_def print_line_def)

theorem ensure_key_preset_witness:
  "environ (init scenario_world) ''AWS_KMS_KEY_ID'' = Some ''key-123''
   \<and> calls (create_kms_key_if_not_exists scenario_world (init scenario_world)) = []
   \<and> kms_key_id (create_kms_key_if_not_exists scenario_world (init scenario_world))
       = PyStr ''key-123''"
proof -
  have h1: "environ (init scenario_world) ''AWS_KMS_KEY_ID'' = Some ''key-123''"
    by (simp add: init_def world_defs)
  have h2: "''key-123'' \<noteq> []" by simp
  have c: "calls (init scenario_world) = []" by (simp add: init_def)
  show ?thesis using h1 c ensure_key_preset [OF h1 h2, of scenario_world] by simp
qed

text \<open>
  Claim C8. When the existence check succeeds, \<open>create_bucket_if_not_exists\<close> makes no
  other call: no bucket is created and no encryption is configured.
\<close>

theorem ensure_bucket_existing:
  assumes "s3_head_bucket w (bucket_name st) = None"
  shows "calls (create_bucket_if_not_exists w st) = calls st @ [HeadBucket (bucket_name st)]"
  using assms by (simp add: create_bucket_if_not_exists_def record_call_def print_line_def)

theorem ensure_bucket_existing_witness:
  "s3_head_bucket scenario_world
     (bucket_name (create_kms_key_if_not_exists scenario_world (init scenario_world))) = None
   \<and> calls (create_bucket_if_not_exists scenario_world
              (create_kms_key_if_not_exists scenario_world (init scenario_world)))
       = [HeadBucket (PyStr ''weather-bucket'')]"
proof -
  let ?st = "create_kms_key_if_not_exists scenario_world (init scenario_world)"
  have h: "s3_head_bucket scenario_world (bucket_name ?st) = None"
    by (simp add: world_defs)
  have p: "calls ?st = []" "bucket_name ?st = PyStr ''weather-bucket''"
    by (simp_all add: run_defs world_defs)
  show ?thesis using h ensure_bucket_existing [OF h] by (simp add: p)
qed

text \<open>
  Claim C9. In every run the key identifier held when \<open>create_kms_key_if_not_exists\<close>
  returns is the one held at the end, at most one key is created, every put-object call
  of the run asks for \<open>aws:kms\<close> with exactly that identifier, which is set, and the
  bucket-encryption call, if there is one, binds the same identifier.
\<close>

theorem key_fixed_after_provisioning:
  "kms_key_id (snd (main w)) = kms_key_id (create_kms_key_if_not_exists w (init w))
   \<and> length (filter is_kms_create_key (calls (snd (main w)))) \<le> 1
   \<and> (\<forall>c \<in> set (calls (snd (main w))).
         encrypts_with (kms_key_id (create_kms_key_if_not_exists w (init w))) c)"
proof -
  obtain r st' where m: "for_cities w cities (provision w) = (r, st')"
    by (cases "for_cities w cities (provision w)") auto
  from for_cities_calls [OF m] obtain new where
    n: "calls st' = calls (provision w) @ new"
    "\<forall>c \<in> set new. encrypts_with (kms_key_id (provision w)) c \<and> \<not> is_kms_create_key c"
    by blast
  have k: "kms_key_id st' = kms_key_id (provision w)"
    using for_cities_fields [OF m] by simp
  have "filter is_kms_create_key new = []" using n(2) by (simp add: filter_empty_conv)
  then have one: "length (filter is_kms_create_key (calls st')) \<le> 1"
    using n(1) provision_calls [of w] by simp
  have "\<forall>c \<in> set (calls st'). encrypts_with (kms_key_id (provision w)) c"
    using n provision_calls [of w] by (auto simp: provision_fields)
  with k one m show ?thesis
    by (simp add: main_def provision_fields)
qed

theorem key_fixed_after_provisioning_witness:
  "kms_key_id (snd (main scenario_world)) = PyStr ''key-123''
   \<and> length (filter is_put_object (calls (snd (main scenario_world)))) = 1
   \<and> list_all (encrypts_with (PyStr ''key-123'')) (calls (snd (main scenario_world)))"
proof -
  have k: "kms_key_id (create_kms_key_if_not_exists scenario_world (init scenario_world))
             = PyStr ''key-123''"
    by (simp add: run_defs world_defs)
  have n: "length (filter is_put_object (calls (snd (main scenario_world)))) = 1"
    by (simp add: run_defs world_defs)
  show ?thesis using n key_fixed_after_provisioning [of scenario_world]
    by (simp add: k list_all_iff)
qed

text \<open>
  Claim C10. When the loop reaches a city whose fetch returns a truthy payload that has
  not the fields \<open>main.temp\<close>, \<open>main.feels_like\<close>, \<open>main.humidity\<close> and
  \<open>weather[0].description\<close>, the reads raise, nothing catches the error, and the loop ends
  there: the request for that city is the last call, so the remaining cities are not
  processed.
\<close>

theorem summary_read_aborts_loop:
  assumes "fst (fetch_weather w city (print_line (Fetching_weather city) st)) = Inr weather_data"
    and "truthy weather_data"
    and "\<not> has_summary_fields weather_data"
  shows "\<exists>e. for_cities w (city # rest) st =
            (Some e, snd (fetch_weather w city (print_line (Fetching_weather city) st)))
          \<and> calls (snd (for_cities w (city # rest) st)) =
              calls st @ [RequestsGet base_url
                 \<lparr> param_q = city, param_appid = api_key st, param_units = ''imperial'' \<rparr>]"
proof -
  obtain e where e: "read_summary weather_data = Inl e"
    using read_summary_Inl [OF assms(3)] by blast
  obtain st1 where
    f: "fetch_weather w city (print_line (Fetching_weather city) st) = (Inr weather_data, st1)"
    using assms(1) by (cases "fetch_weather w city (print_line (Fetching_weather city) st)") auto
  have c: "calls st1 = calls st @ [RequestsGet base_url
                 \<lparr> param_q = city, param_appid = api_key st, param_units = ''imperial'' \<rparr>]"
    using fetch_weather_calls [of w city "print_line (Fetching_weather city) st"] f by simp
  have "for_cities w (city # rest) st = (Some e, st1)"
    using e f assms(2) by (simp add: loop_body_def)
  with f c show ?thesis by simp
qed

theorem summary_read_aborts_loop_witness:
  "truthy (PyDict [(''cod'', PyInt 200)]) \<and> \<not> has_summary_fields (PyDict [(''cod'', PyInt 200)])
   \<and> fst (for_cities malformed_world [''Calgary'', ''Ontario'', ''New York'']
            (provision malformed_world)) \<noteq> None
   \<and> calls (snd (for_cities malformed_world [''Calgary'', ''Ontario'', ''New York'']
                   (provision malformed_world))) =
       [HeadBucket (PyStr ''weather-bucket''),
        RequestsGet base_url \<lparr> param_q = ''Calgary'', param_appid = PyStr ''appid-1'',
                                param_units = ''imperial'' \<rparr>]"
proof -
  let ?st = "provision malformed_world"
  have h1: "fst (fetch_weather malformed_world ''Calgary''
                   (print_line (Fetching_weather ''Calgary'') ?st))
              = Inr (PyDict [(''cod'', PyInt 200)])"
    by (simp add: fetch_weather_def bind_exc_def Let_def world_defs)
  have h2: "truthy (PyDict [(''cod'', PyInt 200)])" by simp
  have h3: "\<not> has_summary_fields (PyDict [(''cod'', PyInt 200)])"
    by (simp add: has_summary_fields_def)
  have p: "calls ?st = [HeadBucket (PyStr ''weather-bucket'')]"
    "api_key ?st = PyStr ''appid-1''"
    by (simp_all add: run_defs world_defs)
  from summary_read_aborts_loop [OF h1 h2 h3, of "[''Ontario'', ''New York'']"]
  obtain e where
    "for_cities malformed_world [''Calgary'', ''Ontario'', ''New York''] ?st =
       (Some e, snd (fetch_weather malformed_world ''Calgary''
                       (print_line (Fetching_weather ''Calgary'') ?st)))"
    "calls (snd (for_cities malformed_world [''Calgary'', ''Ontario'', ''New York''] ?st)) =
       calls ?st @ [RequestsGet base_url
          \<lparr> param_q = ''Calgary'', param_appid = api_key ?st, param_units = ''imperial'' \<rparr>]"
    by blast
  with h2 h3 show ?thesis by (simp add: p)
qed

end
